theory Spec2Isabelle
  imports Complex_Main
begin

section \<open>JavaScript values that cross the two boundaries\<close>

text \<open>
  Both components read parsed JSON with JavaScript's truthiness tests (\<open>!x\<close>, \<open>x || d\<close>),
  so the values are modelled as the values \<open>JSON.parse\<close> produces. A property that is not
  there reads as \<open>undefined\<close>, modelled as \<open>None\<close>. A number is the double the parser
  read: a finite one (\<open>JNumber\<close>), or, for a literal beyond the range of a double such as
  \<open>1e309\<close>, \<open>Infinity\<close> or \<open>-Infinity\<close> (\<open>JInfinity True\<close> and \<open>JInfinity False\<close>).
\<close>

datatype json =
    JNull
  | JBool bool
  | JNumber rat
  | JInfinity bool
  | JString string
  | JArray "json list"
  | JObject "(string \<times> json) list"

text \<open>An awaited call or a property read either throws (with the error's message) or returns.\<close>

datatype 'a outcome = Throws string | Returns 'a

text \<open>
  \<open>JSON.stringify\<close>, read as the value the receiver parses from the text it produces: a
  non-finite number is written as \<open>null\<close>, also inside arrays and objects, and every other
  value comes back as it was.
\<close>

primrec JSON_stringify :: "json \<Rightarrow> json" where
  "JSON_stringify JNull = JNull"
| "JSON_stringify (JBool b) = JBool b"
| "JSON_stringify (JNumber n) = JNumber n"
| "JSON_stringify (JInfinity b) = JNull"
| "JSON_stringify (JString s) = JString s"
| "JSON_stringify (JArray xs) = JArray (map JSON_stringify xs)"
| "JSON_stringify (JObject kvs) = JObject (map (map_prod id JSON_stringify) kvs)"

text \<open>JavaScript truthiness of a parsed JSON value: \<open>null\<close>, \<open>false\<close>, \<open>0\<close> and \<open>""\<close> are falsy.\<close>

fun truthy :: "json \<Rightarrow> bool" where
  "truthy JNull = False"
| "truthy (JBool b) = b"
| "truthy (JNumber n) = (n \<noteq> 0)"
| "truthy (JInfinity b) = True"
| "truthy (JString s) = (s \<noteq> [])"
| "truthy (JArray xs) = True"
| "truthy (JObject kvs) = True"

definition truthy_opt :: "json option \<Rightarrow> bool" where
  "truthy_opt v = (case v of None \<Rightarrow> False | Some j \<Rightarrow> truthy j)"

text \<open>
  \<open>v.k\<close> and \<open>const {k} = v\<close> for the keys the code reads (\<open>message\<close>, \<open>userId\<close>,
  \<open>response\<close>): reading a property of \<open>null\<close> throws a TypeError, an object gives its own
  property (the last one when the JSON text repeats the key), and numbers, strings, booleans
  and arrays have no such property.
\<close>

fun get_prop :: "json \<Rightarrow> string \<Rightarrow> json option outcome" where
  "get_prop JNull k = Throws ''Cannot read properties of null''"
| "get_prop (JObject kvs) k = Returns (map_of (rev kvs) k)"
| "get_prop v k = Returns None"

text \<open>\<open>x || d\<close> where \<open>x\<close> may be \<open>undefined\<close>.\<close>

definition or_else :: "json option \<Rightarrow> json \<Rightarrow> json" where
  "or_else x d = (case x of None \<Rightarrow> d | Some v \<Rightarrow> if truthy v then v else d)"

section \<open>Relay Service: the \<open>lyra-chat\<close> edge function\<close>

record Request =
  req_method :: string
  req_json :: "json outcome"

record Response =
  res_status :: nat
  res_headers :: "(string \<times> string) list"
  res_body :: "json option"

text \<open>The outbound call to the automation endpoint, and what \<open>fetch\<close> resolves to.\<close>

record OutboundCall =
  call_url :: string
  call_method :: string
  call_headers :: "(string \<times> string) list"
  call_body :: json

record UpstreamResponse =
  up_ok :: bool
  up_text :: "string outcome"
  up_json :: "json outcome"

type_synonym upstream = "OutboundCall \<Rightarrow> UpstreamResponse outcome"

definition corsHeaders :: "(string \<times> string) list" where
  "corsHeaders =
     [(''Access-Control-Allow-Origin'', ''*''),
      (''Access-Control-Allow-Methods'', ''GET, POST, PUT, DELETE, OPTIONS''),
      (''Access-Control-Allow-Headers'', ''Content-Type, Authorization, X-Client-Info, Apikey'')]"

definition N8N_WEBHOOK_URL :: string where
  "N8N_WEBHOOK_URL = ''https://zuefer-kilincarslan-n8n.zk-ai.agency/webhook/lyra''"

text \<open>\<open>new Response(JSON.stringify(b), {status, headers: {...corsHeaders, "Content-Type": ...}})\<close>.\<close>

definition json_response :: "nat \<Rightarrow> json \<Rightarrow> Response" where
  "json_response st b =
     \<lparr>res_status = st,
      res_headers = corsHeaders @ [(''Content-Type'', ''application/json'')],
      res_body = Some (JSON_stringify b)\<rparr>"

definition preflight_response :: Response where
  "preflight_response = \<lparr>res_status = 200, res_headers = corsHeaders, res_body = None\<rparr>"

definition missing_fields_response :: Response where
  "missing_fields_response =
     json_response 400 (JObject [(''error'', JString ''Missing required fields'')])"

definition configuration_error_response :: Response where
  "configuration_error_response =
     json_response 500
       (JObject [(''success'', JBool False),
                 (''response'', JString ''Service configuration error. Please contact support.'')])"

definition relay_failure_response :: Response where
  "relay_failure_response =
     json_response 502
       (JObject [(''success'', JBool False),
                 (''response'', JString ''Failed to process your message. Please try again.'')])"

definition success_placeholder :: json where
  "success_placeholder = JString ''Message received and processed''"

text \<open>The success response names no status, so it is the default 200.\<close>

definition success_response :: "json \<Rightarrow> Response" where
  "success_response r = json_response 200 (JObject [(''success'', JBool True), (''response'', r)])"

text \<open>The outer \<open>catch\<close>: status 500 with the exception's message as \<open>details\<close>.\<close>

definition internal_error_response :: "string \<Rightarrow> Response" where
  "internal_error_response m =
     json_response 500
       (JObject [(''error'', JString ''Internal server error''), (''details'', JString m)])"

text \<open>\<open>!WEBHOOK_AUTH_TOKEN\<close>: \<open>Deno.env.get\<close> gives a string or \<open>undefined\<close>.\<close>

definition token_missing :: "string option \<Rightarrow> bool" where
  "token_missing t = (case t of None \<Rightarrow> True | Some s \<Rightarrow> s = [])"

definition outbound_call :: "string \<Rightarrow> string \<Rightarrow> json \<Rightarrow> json \<Rightarrow> OutboundCall" where
  "outbound_call token now message userId =
     \<lparr>call_url = N8N_WEBHOOK_URL,
      call_method = ''POST'',
      call_headers = [(''Content-Type'', ''application/json''), (''WEBHOOK_AUTH_TOKEN'', token)],
      call_body = JSON_stringify
        (JObject [(''message'', message), (''userId'', userId), (''timestamp'', JString now)])\<rparr>"

text \<open>
  The part of the handler after the two guards: the outbound call and the mapping of its
  result. It returns the response together with the outbound calls that were issued.
\<close>

definition forward :: "string \<Rightarrow> string \<Rightarrow> upstream \<Rightarrow> json \<Rightarrow> json \<Rightarrow> Response \<times> OutboundCall list" where
  "forward token now fetch message userId =
     (let call = outbound_call token now message userId in
      case fetch call of
        Throws e \<Rightarrow> (internal_error_response e, [call])
      | Returns n8nResponse \<Rightarrow>
          if \<not> up_ok n8nResponse
          then (case up_text n8nResponse of
                  Throws e \<Rightarrow> (internal_error_response e, [call])
                | Returns errorText \<Rightarrow> (relay_failure_response, [call]))
          else (case up_json n8nResponse of
                  Throws e \<Rightarrow> (internal_error_response e, [call])
                | Returns n8nData \<Rightarrow>
                    (case get_prop n8nData ''response'' of
                       Throws e \<Rightarrow> (internal_error_response e, [call])
                     | Returns r \<Rightarrow> (success_response (or_else r success_placeholder), [call]))))"

text \<open>
  The handler given to \<open>Deno.serve\<close>. \<open>WEBHOOK_AUTH_TOKEN\<close> is read from the environment when
  the module loads, \<open>now\<close> is \<open>new Date().toISOString()\<close>, \<open>fetch\<close> is the external endpoint.
\<close>

definition serve :: "string option \<Rightarrow> string \<Rightarrow> upstream \<Rightarrow> Request \<Rightarrow> Response \<times> OutboundCall list" where
  "serve WEBHOOK_AUTH_TOKEN now fetch req =
     (if req_method req = ''OPTIONS'' then (preflight_response, [])
      else case req_json req of
        Throws e \<Rightarrow> (internal_error_response e, [])
      | Returns parsed \<Rightarrow>
          (case get_prop parsed ''message'' of
             Throws e \<Rightarrow> (internal_error_response e, [])
           | Returns message \<Rightarrow>
               (case get_prop parsed ''userId'' of
                  Throws e \<Rightarrow> (internal_error_response e, [])
                | Returns userId \<Rightarrow>
                    if \<not> truthy_opt message \<or> \<not> truthy_opt userId
                    then (missing_fields_response, [])
                    else if token_missing WEBHOOK_AUTH_TOKEN
                    then (configuration_error_response, [])
                    else forward (case WEBHOOK_AUTH_TOKEN of Some t \<Rightarrow> t | None \<Rightarrow> [])
                           now fetch
                           (case message of Some m \<Rightarrow> m | None \<Rightarrow> JNull)
                           (case userId of Some u \<Rightarrow> u | None \<Rightarrow> JNull))))"

section \<open>History Store\<close>

record ChatMessage =
  id' :: string
  user_id :: string
  message :: string
  response :: json
  created_at :: string
  metadata :: json

text \<open>
  Modelled from the spec: the History Store is the managed backend behind the \<open>supabase\<close>
  client, whose code is not part of the repository; only the table definition
  (\<open>chat_messages\<close> in the migration) and the two queries of the controller are. Following the
  spec ("persistent append-only record of exchanges, keyed by user", "supports create and
  ordered-read of Exchange records scoped by owner identity") and the table's column defaults,
  the store is the list of its rows: an insert either fails and writes nothing, or appends one
  row whose \<open>id\<close>, \<open>created_at\<close> and \<open>metadata\<close> are the column defaults, whose other columns
  hold the values given, and returns that row; a read returns the owner's rows ordered by
  creation time.
\<close>

type_synonym store = "ChatMessage list"

record InsertRow =
  ins_user_id :: string
  ins_message :: string
  ins_response :: json

text \<open>What the backend decides at one insert: the generated id, its clock, and a fault if any.\<close>

record StoreEnv =
  gen_random_uuid :: string
  store_now :: string
  store_fault :: "string option"

definition store_insert :: "StoreEnv \<Rightarrow> InsertRow \<Rightarrow> store \<Rightarrow> ChatMessage outcome \<times> store" where
  "store_insert env row db =
     (case store_fault env of
        Some e \<Rightarrow> (Throws e, db)
      | None \<Rightarrow>
          if gen_random_uuid env \<in> set (map id' db)
          then (Throws ''duplicate key value violates unique constraint'', db)
          else (let saved = \<lparr>id' = gen_random_uuid env,
                              user_id = ins_user_id row,
                              message = ins_message row,
                              response = ins_response row,
                              created_at = store_now env,
                              metadata = JObject []\<rparr>
                in (Returns saved, db @ [saved])))"

text \<open>
  \<open>select('*').eq('user_id', uid).order('created_at', {ascending: true})\<close>; \<open>ts\<close> reads a
  timestamp's text as a point in time.
\<close>

definition store_select :: "(string \<Rightarrow> int) \<Rightarrow> string \<Rightarrow> store \<Rightarrow> ChatMessage list" where
  "store_select ts uid db = sort_key (\<lambda>m. ts (created_at m)) (filter (\<lambda>m. user_id m = uid) db)"

text \<open>The \<open>{data, error}\<close> pair a read resolves to.\<close>

record QueryResult =
  q_data :: "ChatMessage list option"
  q_error :: "string option"

definition store_query :: "(string \<Rightarrow> int) \<Rightarrow> string option \<Rightarrow> string \<Rightarrow> store \<Rightarrow> QueryResult" where
  "store_query ts fault uid db =
     (case fault of
        Some e \<Rightarrow> \<lparr>q_data = None, q_error = Some e\<rparr>
      | None \<Rightarrow> \<lparr>q_data = Some (store_select ts uid db), q_error = None\<rparr>)"

section \<open>Conversation Controller: the \<open>Chat\<close> component\<close>

record chat_state =
  messages :: "ChatMessage list"
  inputMessage :: string
  loading :: bool
  loadingHistory :: bool

definition initial_state :: chat_state where
  "initial_state = \<lparr>messages = [], inputMessage = [], loading = False, loadingHistory = True\<rparr>"

text \<open>
  \<open>String.prototype.trim\<close> on the code units a \<open>char\<close> can hold: tab, line feed, vertical
  tab, form feed, carriage return, space and no-break space.
\<close>

definition is_space :: "char \<Rightarrow> bool" where
  "is_space c = ((of_char c :: nat) \<in> {9, 10, 11, 12, 13, 32, 160})"

definition trim :: "string \<Rightarrow> string" where
  "trim s = rev (dropWhile is_space (rev (dropWhile is_space s)))"

text \<open>
  \<open>loadChatHistory\<close>: an error is thrown into the \<open>catch\<close>, which only logs; otherwise the
  list becomes \<open>data || []\<close>. The \<open>finally\<close> clears \<open>loadingHistory\<close> either way.
\<close>

definition loadChatHistory :: "QueryResult \<Rightarrow> chat_state \<Rightarrow> chat_state" where
  "loadChatHistory q s =
     (case q_error q of
        Some e \<Rightarrow> s\<lparr>loadingHistory := False\<rparr>
      | None \<Rightarrow> s\<lparr>messages := (case q_data q of Some d \<Rightarrow> d | None \<Rightarrow> []),
                   loadingHistory := False\<rparr>)"

text \<open>
  \<open>sendMessage\<close> up to its first \<open>await\<close>. The handler is a closure of the render that
  created it: \<open>inputMessage\<close> and \<open>loading\<close> in its body are the constants of that render
  (\<open>shown\<close>), while the three setters act on the component's state as it is (\<open>s\<close>). The guard
  returns without any effect (\<open>None\<close>); otherwise the input is cleared, \<open>loading\<close> is set and
  the provisional entry is appended. \<open>uid\<close> is \<open>user!.id\<close>, \<open>uuid\<close> is
  \<open>crypto.randomUUID()\<close>, \<open>now\<close> is the client's clock.
\<close>

definition sendMessage_begin :: "string \<Rightarrow> string \<Rightarrow> string \<Rightarrow> chat_state \<Rightarrow> chat_state \<Rightarrow> (chat_state \<times> ChatMessage) option" where
  "sendMessage_begin uid uuid now shown s =
     (if trim (inputMessage shown) = [] \<or> loading shown then None
      else (let userMessage = trim (inputMessage shown);
                tempMessage = \<lparr>id' = uuid,
                                user_id = uid,
                                message = userMessage,
                                response = JNull,
                                created_at = now,
                                metadata = JObject []\<rparr>
            in Some (s\<lparr>inputMessage := [], loading := True,
                       messages := messages s @ [tempMessage]\<rparr>, tempMessage)))"

text \<open>The same when the handler belongs to a render of the state as it is.\<close>

definition sendMessage_start :: "string \<Rightarrow> string \<Rightarrow> string \<Rightarrow> chat_state \<Rightarrow> (chat_state \<times> ChatMessage) option" where
  "sendMessage_start uid uuid now s = sendMessage_begin uid uuid now s s"

text \<open>What the controller's \<open>fetch\<close> of the relay resolves to; \<open>Throws\<close> is a rejected fetch.\<close>

record RelayReply =
  reply_status :: nat
  reply_json :: "json outcome"

definition response_ok :: "nat \<Rightarrow> bool" where
  "response_ok st = (200 \<le> st \<and> st \<le> 299)"

text \<open>
  From the relay's reply to \<open>assistantResponse\<close>: a reply that is not ok, a body that is not
  JSON and a \<open>null\<close> body all throw into the \<open>catch\<close>.
\<close>

definition assistantResponse :: "RelayReply outcome \<Rightarrow> json outcome" where
  "assistantResponse r =
     (case r of
        Throws e \<Rightarrow> Throws e
      | Returns resp \<Rightarrow>
          if \<not> response_ok (reply_status resp) then Throws ''Failed to send message''
          else (case reply_json resp of
                  Throws e \<Rightarrow> Throws e
                | Returns data \<Rightarrow>
                    (case get_prop data ''response'' of
                       Throws e \<Rightarrow> Throws e
                     | Returns x \<Rightarrow> Returns (or_else x (JString ''No response received'')))))"

text \<open>The body the controller posts to the relay: \<open>{message: userMessage, userId: user!.id}\<close>.\<close>

definition relay_request :: "string \<Rightarrow> string \<Rightarrow> json" where
  "relay_request userMessage uid = JObject [(''message'', JString userMessage), (''userId'', JString uid)]"

text \<open>The calls that leave the controller during one submission.\<close>

datatype call = RelayCall json | StoreInsert InsertRow

text \<open>
  The awaited part of the \<open>try\<close> block: the relay call and, when it gave a reply, the insert.
  The result is the saved row, or the exception that reaches the \<open>catch\<close>.
\<close>

definition sendMessage_await :: "(json \<Rightarrow> RelayReply outcome) \<Rightarrow> StoreEnv \<Rightarrow> string \<Rightarrow> ChatMessage \<Rightarrow> store \<Rightarrow> ChatMessage outcome \<times> store \<times> call list" where
  "sendMessage_await relay senv uid tempMessage db =
     (let body = relay_request (message tempMessage) uid
      in case assistantResponse (relay body) of
           Throws e \<Rightarrow> (Throws e, db, [RelayCall body])
         | Returns a \<Rightarrow>
             (let row = \<lparr>ins_user_id = uid, ins_message = message tempMessage, ins_response = a\<rparr>
              in case store_insert senv row db of
                   (saved, db') \<Rightarrow> (saved, db', [RelayCall body, StoreInsert row])))"

text \<open>The two functional updates given to \<open>setMessages\<close>; \<open>prev\<close> is the list at that moment.\<close>

definition update_saved :: "ChatMessage \<Rightarrow> ChatMessage \<Rightarrow> ChatMessage list \<Rightarrow> ChatMessage list" where
  "update_saved tempMessage savedMessage prev =
     filter (\<lambda>m. id' m \<noteq> id' tempMessage) prev @ [savedMessage]"

definition error_text :: string where
  "error_text = ''Sorry, there was an error processing your message. Please try again.''"

definition update_failed :: "ChatMessage \<Rightarrow> ChatMessage list \<Rightarrow> ChatMessage list" where
  "update_failed tempMessage prev =
     filter (\<lambda>m. id' m \<noteq> id' tempMessage) prev @ [tempMessage\<lparr>response := JString error_text\<rparr>]"

text \<open>The end of \<open>sendMessage\<close>: the update of the \<open>try\<close> or of the \<open>catch\<close>, then the \<open>finally\<close>.\<close>

definition sendMessage_finish :: "ChatMessage outcome \<Rightarrow> ChatMessage \<Rightarrow> chat_state \<Rightarrow> chat_state" where
  "sendMessage_finish r tempMessage s =
     (case r of
        Returns savedMessage \<Rightarrow>
          s\<lparr>messages := update_saved tempMessage savedMessage (messages s), loading := False\<rparr>
      | Throws e \<Rightarrow>
          s\<lparr>messages := update_failed tempMessage (messages s), loading := False\<rparr>)"

text \<open>
  One whole submission, handled by the handler of a render of the state as it is, with nothing
  else running in between.
\<close>

record Env =
  env_uid :: string
  env_uuid :: string
  env_now :: string
  env_relay :: "json \<Rightarrow> RelayReply outcome"
  env_store :: StoreEnv

definition sendMessage :: "Env \<Rightarrow> chat_state \<Rightarrow> store \<Rightarrow> chat_state \<times> store \<times> call list" where
  "sendMessage env s db =
     (case sendMessage_start (env_uid env) (env_uuid env) (env_now env) s of
        None \<Rightarrow> (s, db, [])
      | Some (s1, tempMessage) \<Rightarrow>
          (case sendMessage_await (env_relay env) (env_store env) (env_uid env) tempMessage db of
             (r, db', calls) \<Rightarrow> (sendMessage_finish r tempMessage s1, db', calls)))"

subsection \<open>The controller in front of the relay\<close>

text \<open>
  The controller posts \<open>{message, userId}\<close> to the edge function and reads the status and the
  body of what comes back. \<open>edge_function\<close> is the relay as the controller's \<open>fetch\<close> sees it
  when the transport itself does not fail.
\<close>

definition edge_function :: "string option \<Rightarrow> string \<Rightarrow> upstream \<Rightarrow> json \<Rightarrow> RelayReply outcome" where
  "edge_function token now fetch body =
     (let res = fst (serve token now fetch \<lparr>req_method = ''POST'', req_json = Returns body\<rparr>)
      in Returns \<lparr>reply_status = res_status res,
                   reply_json = (case res_body res of
                                   Some j \<Rightarrow> Returns j
                                 | None \<Rightarrow> Throws ''Unexpected end of JSON input'')\<rparr>)"

subsection \<open>A session: submissions interleaved with renders and reloads\<close>

text \<open>
  A session is the component's state (\<open>ui\<close>), the state that the last render showed and
  that the handlers of that render hold as constants (\<open>shown\<close>), and the invocations of
  \<open>sendMessage\<close> that are suspended at an \<open>await\<close>, each remembered by its provisional entry.
  Events are: typing, a render, a submit (handled by the handler of the last render), the
  settling of a suspended submission with the result of its awaited calls, and a reload of
  the history.
\<close>

record session =
  ui :: chat_state
  shown :: chat_state
  in_flight :: "ChatMessage list"

datatype event =
    Typing string
  | Render
  | Submit string string
  | Settle nat "ChatMessage outcome"
  | Reload QueryResult

fun step :: "string \<Rightarrow> session \<Rightarrow> event \<Rightarrow> session" where
  "step uid \<sigma> (Typing v) = \<sigma>\<lparr>ui := (ui \<sigma>)\<lparr>inputMessage := v\<rparr>\<rparr>"
| "step uid \<sigma> Render = \<sigma>\<lparr>shown := ui \<sigma>\<rparr>"
| "step uid \<sigma> (Submit uuid now) =
     (case sendMessage_begin uid uuid now (shown \<sigma>) (ui \<sigma>) of
        None \<Rightarrow> \<sigma>
      | Some (s1, tempMessage) \<Rightarrow> \<sigma>\<lparr>ui := s1, in_flight := in_flight \<sigma> @ [tempMessage]\<rparr>)"
| "step uid \<sigma> (Settle n r) =
     (if n < length (in_flight \<sigma>)
      then \<sigma>\<lparr>ui := sendMessage_finish r (in_flight \<sigma> ! n) (ui \<sigma>),
             in_flight := take n (in_flight \<sigma>) @ drop (Suc n) (in_flight \<sigma>)\<rparr>
      else \<sigma>)"
| "step uid \<sigma> (Reload q) = \<sigma>\<lparr>ui := loadChatHistory q (ui \<sigma>)\<rparr>"

definition run :: "string \<Rightarrow> event list \<Rightarrow> session" where
  "run uid evs =
     foldl (step uid) \<lparr>ui = initial_state, shown = initial_state, in_flight = []\<rparr> evs"

text \<open>The events of a session in which the component renders after every event.\<close>

definition rendering :: "event list \<Rightarrow> event list" where
  "rendering evs = concat (map (\<lambda>e. [e, Render]) evs)"

subsection \<open>A sample session\<close>

text \<open>Concrete values on which the theorems below are exercised.\<close>

definition sample_earlier :: ChatMessage where
  "sample_earlier =
     \<lparr>id' = ''row-7'', user_id = ''u-1'', message = ''first question'',
      response = JString ''first answer'', created_at = ''2025-12-26T16:00:00.000Z'',
      metadata = JObject []\<rparr>"

definition sample_temp :: ChatMessage where
  "sample_temp =
     \<lparr>id' = ''tmp-1'', user_id = ''u-1'', message = ''hello'',
      response = JNull, created_at = ''2025-12-26T16:04:21.000Z'',
      metadata = JObject []\<rparr>"

definition sample_saved :: ChatMessage where
  "sample_saved =
     \<lparr>id' = ''row-9'', user_id = ''u-1'', message = ''hello'',
      response = JString ''hi there'', created_at = ''2025-12-26T16:04:22.000Z'',
      metadata = JObject []\<rparr>"

definition sample_state :: chat_state where
  "sample_state =
     \<lparr>messages = [sample_earlier], inputMessage = ''  hello '',
      loading = False, loadingHistory = False\<rparr>"

definition sample_store_env :: StoreEnv where
  "sample_store_env =
     \<lparr>gen_random_uuid = ''row-9'', store_now = ''2025-12-26T16:04:22.000Z'', store_fault = None\<rparr>"

text \<open>
  An automation endpoint that answers \<open>{response: "hi there"}\<close>, one that answers
  \<open>{"response":1e309}\<close>, and one that is down.
\<close>

definition sample_upstream_ok :: upstream where
  "sample_upstream_ok =
     (\<lambda>c. Returns \<lparr>up_ok = True, up_text = Returns ''(the body's text)'',
                     up_json = Returns (JObject [(''response'', JString ''hi there'')])\<rparr>)"

definition sample_upstream_overflow :: upstream where
  "sample_upstream_overflow =
     (\<lambda>c. Returns \<lparr>up_ok = True, up_text = Returns ''(the body's text)'',
                     up_json = Returns (JObject [(''response'', JInfinity True)])\<rparr>)"

definition sample_upstream_down :: upstream where
  "sample_upstream_down =
     (\<lambda>c. Returns \<lparr>up_ok = False, up_text = Returns ''Bad Gateway'',
                     up_json = Throws ''Unexpected token B in JSON at position 0''\<rparr>)"

definition sample_env :: "upstream \<Rightarrow> Env" where
  "sample_env up =
     \<lparr>env_uid = ''u-1'', env_uuid = ''tmp-1'', env_now = ''2025-12-26T16:04:21.000Z'',
      env_relay = edge_function (Some ''s3cret'') ''2025-12-26T16:04:21.500Z'' up,
      env_store = sample_store_env\<rparr>"

section \<open>Facts about the relay\<close>

lemma truthy_opt_Some: "truthy_opt x \<Longrightarrow> \<exists>v. x = Some v \<and> truthy v"
  by (cases x) (simp_all add: truthy_opt_def)

lemma nonempty_string_truthy: "s \<noteq> [] \<Longrightarrow> truthy_opt (Some (JString s))"
  by (simp add: truthy_opt_def)

lemma missing_or_empty_falsy:
  "\<not> truthy_opt None" "\<not> truthy_opt (Some JNull)" "\<not> truthy_opt (Some (JString []))"
  by (simp_all add: truthy_opt_def)

lemma or_else_truthy: "truthy d \<Longrightarrow> truthy (or_else x d)"
  by (cases x) (simp_all add: or_else_def)

lemma stringify_truthy: "truthy v \<Longrightarrow> truthy (JSON_stringify v) \<or> (\<exists>b. v = JInfinity b)"
  by (cases v) simp_all

lemma serve_missing_fields:
  assumes "req_method req \<noteq> ''OPTIONS''"
    and "req_json req = Returns b"
    and "get_prop b ''message'' = Returns m"
    and "get_prop b ''userId'' = Returns u"
    and "\<not> truthy_opt m \<or> \<not> truthy_opt u"
  shows "serve tok now fetch req = (missing_fields_response, [])"
  using assms by (auto simp: serve_def)

lemma serve_unparsed:
  assumes "req_method req \<noteq> ''OPTIONS''"
    and "req_json req = Throws e \<or> req_json req = Returns JNull"
  shows "\<exists>e'. serve tok now fetch req = (internal_error_response e', [])"
  using assms by (auto simp: serve_def)

lemma forward_not_config: "fst (forward t now fetch m u) \<noteq> configuration_error_response"
  by (auto simp: forward_def Let_def configuration_error_response_def internal_error_response_def
      relay_failure_response_def success_response_def json_response_def
      split: outcome.splits)

lemma other_not_config:
  "preflight_response \<noteq> configuration_error_response"
  "internal_error_response e \<noteq> configuration_error_response"
  "missing_fields_response \<noteq> configuration_error_response"
  by (simp_all add: preflight_response_def configuration_error_response_def
      internal_error_response_def missing_fields_response_def json_response_def)

lemma serve_config_only_wellformed:
  assumes "fst (serve tok now fetch req) = configuration_error_response"
  shows "\<exists>b m u. req_json req = Returns b \<and> get_prop b ''message'' = Returns (Some m) \<and> truthy m
      \<and> get_prop b ''userId'' = Returns (Some u) \<and> truthy u \<and> token_missing tok"
proof (cases "req_json req")
  case (Throws e)
  with assms show ?thesis by (simp add: serve_def other_not_config split: if_splits)
next
  case (Returns b)
  show ?thesis
  proof (cases "get_prop b ''message''")
    case (Throws e)
    with assms Returns show ?thesis by (simp add: serve_def other_not_config split: if_splits)
  next
    case m: (Returns mo)
    show ?thesis
    proof (cases "get_prop b ''userId''")
      case (Throws e)
      with assms Returns m show ?thesis by (simp add: serve_def other_not_config split: if_splits)
    next
      case u: (Returns uo)
      from assms Returns m u have "truthy_opt mo \<and> truthy_opt uo \<and> token_missing tok"
        by (simp add: serve_def other_not_config forward_not_config split: if_splits)
      with Returns m u show ?thesis by (auto dest!: truthy_opt_Some)
    qed
  qed
qed

section \<open>Relay Service: the claims\<close>

text \<open>
  Claim C5. For a request that is not the preflight (a POST in particular) whose body carries
  a truthy \<open>message\<close> and a truthy \<open>userId\<close> (for strings: non-empty), a secret that is unset
  (or set to the empty string) gives the configuration-error outcome, status 500 with
  \<open>{success: false, response: "Service configuration error. Please contact support."}\<close>, and
  the list of outbound calls is empty.
\<close>

theorem unconfigured_secret_fails_closed:
  assumes "req_method req \<noteq> ''OPTIONS''"
    and "req_json req = Returns b"
    and "get_prop b ''message'' = Returns (Some m)" and "truthy m"
    and "get_prop b ''userId'' = Returns (Some u)" and "truthy u"
    and "token_missing tok"
  shows "serve tok now fetch req = (configuration_error_response, [])
       \<and> res_status configuration_error_response = 500
       \<and> res_body configuration_error_response =
           Some (JObject [(''success'', JBool False),
                          (''response'', JString ''Service configuration error. Please contact support.'')])"
  using assms
  by (simp add: serve_def truthy_opt_def configuration_error_response_def json_response_def)

theorem unconfigured_secret_fails_closed_witness:
  "token_missing None
   \<and> serve None ''2025-12-26T16:04:21.000Z''
       (\<lambda>c. Returns \<lparr>up_ok = True, up_text = Returns ''{}'', up_json = Returns (JObject [])\<rparr>)
       \<lparr>req_method = ''POST'',
        req_json = Returns (JObject [(''message'', JString ''hello''), (''userId'', JString ''u-1'')])\<rparr>
     = (configuration_error_response, [])"
  using unconfigured_secret_fails_closed
    [of "\<lparr>req_method = ''POST'',
          req_json = Returns (JObject [(''message'', JString ''hello''), (''userId'', JString ''u-1'')])\<rparr>"
        "JObject [(''message'', JString ''hello''), (''userId'', JString ''u-1'')]"
        "JString ''hello''" "JString ''u-1''" None]
  by (simp add: token_missing_def)

text \<open>
  Claim C6, as stated, fails: a POST whose body is not JSON at all (an empty body, say) has no
  \<open>message\<close> and no \<open>userId\<close>, yet \<open>req.json()\<close> throws before the field check and the outer
  \<open>catch\<close> answers 500 "Internal server error", not 400.
\<close>

theorem missing_fields_counterexample:
  "serve (Some ''s3cret'') ''2025-12-26T16:04:21.000Z''
     (\<lambda>c. Returns \<lparr>up_ok = True, up_text = Returns ''{}'', up_json = Returns (JObject [])\<rparr>)
     \<lparr>req_method = ''POST'', req_json = Throws ''Unexpected end of JSON input''\<rparr>
   = (internal_error_response ''Unexpected end of JSON input'', [])
   \<and> res_status (internal_error_response ''Unexpected end of JSON input'') = 500
   \<and> internal_error_response ''Unexpected end of JSON input'' \<noteq> missing_fields_response"
  by (simp add: serve_def internal_error_response_def missing_fields_response_def json_response_def)

text \<open>
  Claim C6, amended. For a request that is not the preflight whose body parses to a JSON value
  other than \<open>null\<close> (so that reading its fields does not throw), if \<open>message\<close> or \<open>userId\<close> is
  falsy (missing, \<open>null\<close> and the empty string are) the relay returns status 400 with
  \<open>{error: "Missing required fields"}\<close> and has issued no outbound call.
\<close>

theorem missing_fields_rejected_before_outbound_call:
  assumes "req_method req \<noteq> ''OPTIONS''"
    and "req_json req = Returns b" and "b \<noteq> JNull"
    and "get_prop b ''message'' = Returns m"
    and "get_prop b ''userId'' = Returns u"
    and "\<not> truthy_opt m \<or> \<not> truthy_opt u"
  shows "serve tok now fetch req = (missing_fields_response, [])
       \<and> res_status missing_fields_response = 400
       \<and> res_body missing_fields_response = Some (JObject [(''error'', JString ''Missing required fields'')])"
  using serve_missing_fields [OF assms(1,2,4,5,6)]
  by (simp add: missing_fields_response_def json_response_def)

theorem missing_fields_rejected_before_outbound_call_witness:
  "\<not> truthy_opt (Some (JString ''''))
   \<and> serve (Some ''s3cret'') ''2025-12-26T16:04:21.000Z''
       (\<lambda>c. Returns \<lparr>up_ok = True, up_text = Returns ''{}'', up_json = Returns (JObject [])\<rparr>)
       \<lparr>req_method = ''POST'', req_json = Returns (JObject [(''message'', JString '''')])\<rparr>
     = (missing_fields_response, [])"
  using missing_fields_rejected_before_outbound_call
    [of "\<lparr>req_method = ''POST'', req_json = Returns (JObject [(''message'', JString '''')])\<rparr>"
        "JObject [(''message'', JString '''')]" "Some (JString '''')" None]
  by (simp add: truthy_opt_def)

text \<open>
  Claim C7, as stated, fails, in two ways. When the endpoint answers with a success status and
  a body that is not JSON, \<open>n8nResponse.json()\<close> throws and the relay answers 500 "Internal
  server error" instead of 200 with a reply. And when the endpoint answers
  \<open>{"response":1e309}\<close>, the reply field is read as \<open>Infinity\<close>, which is truthy, so no
  placeholder is put in, and \<open>JSON.stringify\<close> writes it as \<open>null\<close>: the relay answers 200
  with \<open>{success: true, response: null}\<close>, an empty reply on success.
\<close>

theorem upstream_success_counterexample:
  "res_status (fst (serve (Some ''s3cret'') ''2025-12-26T16:04:21.000Z''
     (\<lambda>c. Returns \<lparr>up_ok = True, up_text = Returns ''Workflow was started'',
                     up_json = Throws ''Unexpected token W in JSON at position 0''\<rparr>)
     \<lparr>req_method = ''POST'',
      req_json = Returns (JObject [(''message'', JString ''hello''), (''userId'', JString ''u-1'')])\<rparr>))
   = 500
   \<and> res_body (fst (serve (Some ''s3cret'') ''2025-12-26T16:04:21.000Z''
     (\<lambda>c. Returns \<lparr>up_ok = True, up_text = Returns ''Workflow was started'',
                     up_json = Throws ''Unexpected token W in JSON at position 0''\<rparr>)
     \<lparr>req_method = ''POST'',
      req_json = Returns (JObject [(''message'', JString ''hello''), (''userId'', JString ''u-1'')])\<rparr>))
   = Some (JObject [(''error'', JString ''Internal server error''),
                    (''details'', JString ''Unexpected token W in JSON at position 0'')])
   \<and> res_status (fst (serve (Some ''s3cret'') ''2025-12-26T16:04:21.000Z'' sample_upstream_overflow
     \<lparr>req_method = ''POST'',
      req_json = Returns (JObject [(''message'', JString ''hello''), (''userId'', JString ''u-1'')])\<rparr>))
   = 200
   \<and> res_body (fst (serve (Some ''s3cret'') ''2025-12-26T16:04:21.000Z'' sample_upstream_overflow
     \<lparr>req_method = ''POST'',
      req_json = Returns (JObject [(''message'', JString ''hello''), (''userId'', JString ''u-1'')])\<rparr>))
   = Some (JObject [(''success'', JBool True), (''response'', JNull)])"
  by (simp add: serve_def forward_def truthy_opt_def token_missing_def or_else_def
      sample_upstream_overflow_def internal_error_response_def success_response_def
      json_response_def)

text \<open>
  Claim C7, amended. When the outbound call resolves with a success status and its body
  parses to a JSON value other than \<open>null\<close>, the relay returns status 200 with
  \<open>{success: true, response: r}\<close>, having issued exactly that one outbound call. The reply
  chosen is the body's \<open>response\<close> field when that is truthy and the fixed placeholder
  "Message received and processed" otherwise, and \<open>r\<close> is that reply as \<open>JSON.stringify\<close>
  writes it. So \<open>r\<close> is non-empty (truthy) unless the field is a number beyond the range of
  a double, read as \<open>Infinity\<close> and written as \<open>null\<close>; a reply that is a string is sent as
  it is and is never the empty string.
\<close>

theorem upstream_success_gives_reply:
  assumes "req_method req \<noteq> ''OPTIONS''"
    and "req_json req = Returns b"
    and "get_prop b ''message'' = Returns (Some m)" and "truthy m"
    and "get_prop b ''userId'' = Returns (Some u)" and "truthy u"
    and "tok = Some t" and "t \<noteq> []"
    and "fetch (outbound_call t now m u) = Returns up" and "up_ok up"
    and "up_json up = Returns d" and "d \<noteq> JNull"
    and "get_prop d ''response'' = Returns r"
  shows "\<exists>reply. serve tok now fetch req = (success_response reply, [outbound_call t now m u])
       \<and> reply = (case r of
                    None \<Rightarrow> JString ''Message received and processed''
                  | Some v \<Rightarrow> if truthy v then v else JString ''Message received and processed'')
       \<and> res_status (success_response reply) = 200
       \<and> res_body (success_response reply) =
           Some (JObject [(''success'', JBool True), (''response'', JSON_stringify reply)])
       \<and> (truthy (JSON_stringify reply) \<or> (\<exists>inf. r = Some (JInfinity inf)))
       \<and> (\<forall>s. reply = JString s \<longrightarrow> JSON_stringify reply = JString s \<and> s \<noteq> [])"
proof -
  let ?reply = "or_else r success_placeholder"
  have served: "serve tok now fetch req = (success_response ?reply, [outbound_call t now m u])"
    using assms
    by (simp add: serve_def forward_def truthy_opt_def token_missing_def)
  have chosen: "?reply =
      (case r of None \<Rightarrow> JString ''Message received and processed''
       | Some v \<Rightarrow> if truthy v then v else JString ''Message received and processed'')"
    by (simp add: or_else_def success_placeholder_def)
  have tr: "truthy ?reply"
    by (rule or_else_truthy) (simp add: success_placeholder_def)
  have sent: "truthy (JSON_stringify ?reply) \<or> (\<exists>inf. r = Some (JInfinity inf))"
  proof (cases "\<exists>inf. ?reply = JInfinity inf")
    case True
    then have "\<exists>inf. r = Some (JInfinity inf)"
      by (auto simp: or_else_def success_placeholder_def split: option.splits if_splits)
    then show ?thesis ..
  next
    case False
    with stringify_truthy [OF tr] show ?thesis by blast
  qed
  have str: "\<forall>s. ?reply = JString s \<longrightarrow> JSON_stringify ?reply = JString s \<and> s \<noteq> []"
    using tr by auto
  have shape: "res_status (success_response ?reply) = 200
      \<and> res_body (success_response ?reply) =
          Some (JObject [(''success'', JBool True), (''response'', JSON_stringify ?reply)])"
    by (simp add: success_response_def json_response_def)
  from served chosen shape sent str show ?thesis by blast
qed

theorem upstream_success_gives_reply_witness:
  "serve (Some ''s3cret'') ''2025-12-26T16:04:21.000Z''
     (\<lambda>c. Returns \<lparr>up_ok = True, up_text = Returns ''{}'', up_json = Returns (JObject [])\<rparr>)
     \<lparr>req_method = ''POST'',
      req_json = Returns (JObject [(''message'', JString ''hello''), (''userId'', JString ''u-1'')])\<rparr>
   = (success_response (JString ''Message received and processed''),
      [outbound_call ''s3cret'' ''2025-12-26T16:04:21.000Z'' (JString ''hello'') (JString ''u-1'')])"
  using upstream_success_gives_reply
    [of "\<lparr>req_method = ''POST'',
          req_json = Returns (JObject [(''message'', JString ''hello''), (''userId'', JString ''u-1'')])\<rparr>"
        "JObject [(''message'', JString ''hello''), (''userId'', JString ''u-1'')]"
        "JString ''hello''" "JString ''u-1''" "Some ''s3cret''" "''s3cret''"
        "\<lambda>c. Returns \<lparr>up_ok = True, up_text = Returns ''{}'', up_json = Returns (JObject [])\<rparr>"
        "''2025-12-26T16:04:21.000Z''"
        "\<lparr>up_ok = True, up_text = Returns ''{}'', up_json = Returns (JObject [])\<rparr>"
        "JObject []" None]
  by auto

text \<open>
  Claim C10, as stated, fails: with the secret unset, a POST whose body is JSON \<open>null\<close> has no
  \<open>message\<close> and no \<open>userId\<close>, yet destructuring \<open>null\<close> throws and the relay answers
  500 "Internal server error", not 400.
\<close>

theorem field_check_first_counterexample:
  "serve None ''2025-12-26T16:04:21.000Z''
     (\<lambda>c. Returns \<lparr>up_ok = True, up_text = Returns ''{}'', up_json = Returns (JObject [])\<rparr>)
     \<lparr>req_method = ''POST'', req_json = Returns JNull\<rparr>
   = (internal_error_response ''Cannot read properties of null'', [])
   \<and> res_status (internal_error_response ''Cannot read properties of null'') = 500
   \<and> internal_error_response ''Cannot read properties of null'' \<noteq> missing_fields_response"
  by (simp add: serve_def internal_error_response_def missing_fields_response_def json_response_def)

text \<open>
  Claim C10, amended. The field check comes before the configuration check: for a request
  that is not the preflight whose body parses to a JSON value other than \<open>null\<close>, a falsy
  \<open>message\<close> or \<open>userId\<close> gives the 400 "Missing required fields" outcome also when the secret
  is unconfigured; and whenever the relay returns the configuration-error outcome, the body
  did parse and both fields were truthy.
\<close>

theorem field_check_precedes_configuration_check:
  "(req_method req \<noteq> ''OPTIONS'' \<and> req_json req = Returns b \<and> b \<noteq> JNull
      \<and> get_prop b ''message'' = Returns m \<and> get_prop b ''userId'' = Returns u
      \<and> (\<not> truthy_opt m \<or> \<not> truthy_opt u) \<and> token_missing tok
    \<longrightarrow> serve tok now fetch req = (missing_fields_response, []))
   \<and> (fst (serve tok now fetch req) = configuration_error_response
    \<longrightarrow> (\<exists>b' m' u'. req_json req = Returns b'
           \<and> get_prop b' ''message'' = Returns (Some m') \<and> truthy m'
           \<and> get_prop b' ''userId'' = Returns (Some u') \<and> truthy u'))"
proof (intro conjI impI)
  assume "req_method req \<noteq> ''OPTIONS'' \<and> req_json req = Returns b \<and> b \<noteq> JNull
      \<and> get_prop b ''message'' = Returns m \<and> get_prop b ''userId'' = Returns u
      \<and> (\<not> truthy_opt m \<or> \<not> truthy_opt u) \<and> token_missing tok"
  then show "serve tok now fetch req = (missing_fields_response, [])"
    using serve_missing_fields [of req b m u] by blast
next
  assume "fst (serve tok now fetch req) = configuration_error_response"
  from serve_config_only_wellformed [OF this]
  show "\<exists>b' m' u'. req_json req = Returns b'
           \<and> get_prop b' ''message'' = Returns (Some m') \<and> truthy m'
           \<and> get_prop b' ''userId'' = Returns (Some u') \<and> truthy u'"
    by blast
qed

theorem field_check_precedes_configuration_check_witness:
  "token_missing None
   \<and> serve None ''2025-12-26T16:04:21.000Z''
       (\<lambda>c. Returns \<lparr>up_ok = True, up_text = Returns ''{}'', up_json = Returns (JObject [])\<rparr>)
       \<lparr>req_method = ''POST'', req_json = Returns (JObject [(''userId'', JString ''u-1'')])\<rparr>
     = (missing_fields_response, [])"
  using field_check_precedes_configuration_check
    [of "\<lparr>req_method = ''POST'', req_json = Returns (JObject [(''userId'', JString ''u-1'')])\<rparr>"
        "JObject [(''userId'', JString ''u-1'')]" None "Some (JString ''u-1'')" None
        "''2025-12-26T16:04:21.000Z''"
        "\<lambda>c. Returns \<lparr>up_ok = True, up_text = Returns ''{}'', up_json = Returns (JObject [])\<rparr>"]
  by (simp add: truthy_opt_def token_missing_def)

section \<open>Facts about the controller\<close>

lemma sendMessage_start_accepts:
  assumes "trim (inputMessage s) \<noteq> []" and "\<not> loading s"
  shows "sendMessage_start uid uuid now s =
           Some (s\<lparr>inputMessage := [], loading := True,
                    messages := messages s @
                      [\<lparr>id' = uuid, user_id = uid, message = trim (inputMessage s),
                        response = JNull, created_at = now, metadata = JObject []\<rparr>]\<rparr>,
                 \<lparr>id' = uuid, user_id = uid, message = trim (inputMessage s),
                  response = JNull, created_at = now, metadata = JObject []\<rparr>)"
  using assms by (simp add: sendMessage_start_def sendMessage_begin_def Let_def)

lemma sendMessage_begin_rejects: "loading sh \<Longrightarrow> sendMessage_begin uid uuid now sh s = None"
  by (simp add: sendMessage_begin_def)

lemma sendMessage_start_rejects: "loading s \<Longrightarrow> sendMessage_start uid uuid now s = None"
  by (simp add: sendMessage_start_def sendMessage_begin_rejects)

lemma sendMessage_begin_loading:
  "sendMessage_begin uid uuid now sh s = Some (s1, t) \<Longrightarrow> \<not> loading sh \<and> loading s1"
  by (auto simp: sendMessage_begin_def Let_def split: if_splits)

lemma sendMessage_rejects: "loading s \<Longrightarrow> sendMessage env s db = (s, db, [])"
  by (simp add: sendMessage_def sendMessage_start_rejects)

lemma filter_fresh: "k \<notin> set (map id' xs) \<Longrightarrow> filter (\<lambda>m. id' m \<noteq> k) xs = xs"
  by (induction xs) auto



lemma sendMessage_finish_loading: "\<not> loading (sendMessage_finish r t s)"
  by (cases r) (simp_all add: sendMessage_finish_def)

lemma loadChatHistory_loading: "loading (loadChatHistory q s) = loading s"
  by (simp add: loadChatHistory_def split: option.splits)

lemma await_failure_keeps_store:
  assumes "sendMessage_await relay senv uid t db = (Throws e, db', calls)"
  shows "db' = db"
  using assms
  by (auto simp: sendMessage_await_def store_insert_def Let_def
      split: outcome.splits option.splits if_splits)

text \<open>
  In a session in which the component renders after every event, the handlers always hold
  the state as it is, \<open>loading\<close> is set exactly when a submission is suspended, and there
  is never more than one of them.
\<close>

lemma run_snoc: "run uid (evs @ [e]) = step uid (run uid evs) e"
  by (simp add: run_def)

lemma run_rendering_snoc:
  "run uid (rendering (evs @ [e])) = step uid (step uid (run uid (rendering evs)) e) Render"
  by (simp add: run_def rendering_def)

lemma step_invariant:
  assumes "shown \<sigma> = ui \<sigma>"
    and "loading (ui \<sigma>) = (in_flight \<sigma> \<noteq> [])" and "length (in_flight \<sigma>) \<le> 1"
  shows "loading (ui (step uid \<sigma> e)) = (in_flight (step uid \<sigma> e) \<noteq> [])
       \<and> length (in_flight (step uid \<sigma> e)) \<le> 1"
proof (cases e)
  case (Typing v)
  with assms show ?thesis by simp
next
  case Render
  with assms show ?thesis by simp
next
  case (Submit uuid now)
  show ?thesis
  proof (cases "sendMessage_begin uid uuid now (shown \<sigma>) (ui \<sigma>)")
    case None
    with assms Submit show ?thesis by simp
  next
    case (Some p)
    obtain s1 t where p: "p = (s1, t)" by (cases p)
    from Some p have "\<not> loading (shown \<sigma>)" and "loading s1"
      using sendMessage_begin_loading by blast+
    with assms Some p Submit show ?thesis by simp
  qed
next
  case (Settle n r)
  show ?thesis
  proof (cases "n < length (in_flight \<sigma>)")
    case True
    with assms have "n = 0" and "length (in_flight \<sigma>) = 1" by simp_all
    with Settle show ?thesis by (simp add: sendMessage_finish_loading)
  next
    case False
    with assms Settle show ?thesis by simp
  qed
next
  case (Reload q)
  with assms show ?thesis by (simp add: loadChatHistory_loading)
qed

lemma run_rendering_invariant:
  "shown (run uid (rendering evs)) = ui (run uid (rendering evs))
   \<and> loading (ui (run uid (rendering evs))) = (in_flight (run uid (rendering evs)) \<noteq> [])
   \<and> length (in_flight (run uid (rendering evs))) \<le> 1"
proof (induction evs rule: rev_induct)
  case Nil
  show ?case by (simp add: run_def rendering_def initial_state_def)
next
  case (snoc e evs)
  then show ?case
    using step_invariant [of "run uid (rendering evs)" uid e]
    by (simp add: run_rendering_snoc)
qed

lemma sample_trim: "trim ''  hello '' = ''hello''"
  by (simp add: trim_def is_space_def)

lemma sample_run_ok:
  "sendMessage (sample_env sample_upstream_ok) sample_state [sample_earlier] =
     (\<lparr>messages = [sample_earlier, sample_saved], inputMessage = [], loading = False,
       loadingHistory = False\<rparr>,
      [sample_earlier, sample_saved],
      [RelayCall (relay_request ''hello'' ''u-1''),
       StoreInsert \<lparr>ins_user_id = ''u-1'', ins_message = ''hello'', ins_response = JString ''hi there''\<rparr>])"
  by (simp add: sendMessage_def sendMessage_start_def sendMessage_begin_def sendMessage_await_def
      sendMessage_finish_def
      sample_env_def sample_state_def sample_trim Let_def edge_function_def serve_def forward_def
      relay_request_def sample_upstream_ok_def truthy_opt_def token_missing_def
      assistantResponse_def success_response_def json_response_def response_ok_def or_else_def
      store_insert_def sample_store_env_def sample_earlier_def update_saved_def sample_saved_def)

lemma sample_run_down:
  "sendMessage (sample_env sample_upstream_down) sample_state [sample_earlier] =
     (\<lparr>messages = [sample_earlier, sample_temp\<lparr>response := JString error_text\<rparr>],
       inputMessage = [], loading = False, loadingHistory = False\<rparr>,
      [sample_earlier],
      [RelayCall (relay_request ''hello'' ''u-1'')])"
  by (simp add: sendMessage_def sendMessage_start_def sendMessage_begin_def sendMessage_await_def
      sendMessage_finish_def
      sample_env_def sample_state_def sample_trim Let_def edge_function_def serve_def forward_def
      relay_request_def sample_upstream_down_def truthy_opt_def token_missing_def
      assistantResponse_def relay_failure_response_def json_response_def response_ok_def
      sample_earlier_def update_failed_def sample_temp_def)

lemma sample_relay_down:
  "env_relay (sample_env sample_upstream_down) (relay_request ''hello'' ''u-1'') =
     Returns \<lparr>reply_status = 502,
              reply_json = Returns (JObject [(''success'', JBool False),
                 (''response'', JString ''Failed to process your message. Please try again.'')])\<rparr>"
  by (simp add: sample_env_def edge_function_def serve_def forward_def relay_request_def
      sample_upstream_down_def truthy_opt_def token_missing_def Let_def
      relay_failure_response_def json_response_def)

section \<open>Conversation Controller: the claims\<close>

text \<open>
  Claim C1, as stated, fails: the confirmation is not an in-place replacement. With the
  provisional entry at position 0 and another entry behind it, the update filters the
  provisional entry out and appends the saved row, so position 0 then holds the other entry
  and the saved row sits at position 1.
\<close>

theorem replacement_not_in_place_counterexample:
  "messages \<lparr>messages = [sample_temp, sample_earlier], inputMessage = [],
             loading = True, loadingHistory = False\<rparr> ! 0 = sample_temp
   \<and> messages (sendMessage_finish (Returns sample_saved) sample_temp
        \<lparr>messages = [sample_temp, sample_earlier], inputMessage = [],
         loading = True, loadingHistory = False\<rparr>) = [sample_earlier, sample_saved]
   \<and> messages (sendMessage_finish (Returns sample_saved) sample_temp
        \<lparr>messages = [sample_temp, sample_earlier], inputMessage = [],
         loading = True, loadingHistory = False\<rparr>) ! 0 \<noteq> sample_saved"
  by (simp add: sendMessage_finish_def update_saved_def sample_temp_def sample_earlier_def
      sample_saved_def)

text \<open>
  Claim C1, amended. On success the controller removes every entry that carries the temporary
  id and appends the store-assigned Exchange at the end of the list. When the provisional
  entry is the last entry and no other entry carries its id (the list as \<open>submit\<close> left it),
  the saved Exchange therefore stands at the provisional entry's position and every other
  entry keeps its own.
\<close>

theorem confirmation_filters_and_appends:
  "messages (sendMessage_finish (Returns saved) t s) =
     filter (\<lambda>m. id' m \<noteq> id' t) (messages s) @ [saved]
   \<and> (messages s = xs @ [t] \<and> id' t \<notin> set (map id' xs)
      \<longrightarrow> messages (sendMessage_finish (Returns saved) t s) = xs @ [saved]
        \<and> messages s ! length xs = t
        \<and> messages (sendMessage_finish (Returns saved) t s) ! length xs = saved
        \<and> length (messages (sendMessage_finish (Returns saved) t s)) = length (messages s))"
  by (simp add: sendMessage_finish_def update_saved_def filter_fresh)

theorem confirmation_filters_and_appends_witness:
  "messages (sendMessage_finish (Returns sample_saved) sample_temp
      \<lparr>messages = [sample_earlier, sample_temp], inputMessage = [],
       loading = True, loadingHistory = False\<rparr>) = [sample_earlier, sample_saved]"
  using confirmation_filters_and_appends
    [of sample_saved sample_temp
        "\<lparr>messages = [sample_earlier, sample_temp], inputMessage = [],
          loading = True, loadingHistory = False\<rparr>"
        "[sample_earlier]"]
  by (simp add: sample_earlier_def sample_temp_def)




text \<open>
  Claim C3, as stated, fails: the guard of \<open>sendMessage\<close> tests the \<open>loading\<close> constant of the
  render that created the handler, not the state. After a first submit has set \<open>loading\<close>
  and appended its provisional entry, a second submit that reaches the handler of the same
  render is accepted as well: the list grows from one entry to two and two submissions are in
  flight.
\<close>

theorem second_submit_accepted_counterexample:
  "loading (ui (run ''u-1''
       [Typing ''  hello '', Render, Submit ''tmp-1'' ''2025-12-26T16:04:21.000Z'']))
   \<and> in_flight (run ''u-1''
       [Typing ''  hello '', Render, Submit ''tmp-1'' ''2025-12-26T16:04:21.000Z''])
     = [sample_temp]
   \<and> length (messages (ui (run ''u-1''
       [Typing ''  hello '', Render, Submit ''tmp-1'' ''2025-12-26T16:04:21.000Z''])))
     = 1
   \<and> in_flight (run ''u-1''
       [Typing ''  hello '', Render, Submit ''tmp-1'' ''2025-12-26T16:04:21.000Z'',
        Submit ''tmp-2'' ''2025-12-26T16:04:21.100Z''])
     = [sample_temp, sample_temp\<lparr>id' := ''tmp-2'', created_at := ''2025-12-26T16:04:21.100Z''\<rparr>]
   \<and> length (messages (ui (run ''u-1''
       [Typing ''  hello '', Render, Submit ''tmp-1'' ''2025-12-26T16:04:21.000Z'',
        Submit ''tmp-2'' ''2025-12-26T16:04:21.100Z''])))
     = 2"
  by (simp add: run_def initial_state_def sendMessage_begin_def sample_trim Let_def
      sample_temp_def)

text \<open>
  Claim C3, amended. Once the component has rendered the pending state, so that the handler's
  \<open>loading\<close> is true, every further call to submit is rejected without effect: the session
  stays as it is, and \<open>sendMessage\<close> returns the state and the store unchanged (so the list
  has the same length) and has issued no relay call and no store call. In a session in which
  the component renders after every event, \<open>loading\<close> is set exactly while a submission is
  in flight, at most one submission is in flight at any time, and a submit made while one is
  in flight is rejected.
\<close>

theorem submit_rejected_once_loading_is_rendered:
  "(loading (shown \<sigma>) \<longrightarrow> step uid \<sigma> (Submit uuid now) = \<sigma>)
   \<and> (loading s \<longrightarrow> sendMessage env s db = (s, db, [])
        \<and> length (messages (fst (sendMessage env s db))) = length (messages s))
   \<and> shown (run uid (rendering evs)) = ui (run uid (rendering evs))
   \<and> length (in_flight (run uid (rendering evs))) \<le> 1
   \<and> loading (ui (run uid (rendering evs))) = (in_flight (run uid (rendering evs)) \<noteq> [])
   \<and> (in_flight (run uid (rendering evs)) \<noteq> []
      \<longrightarrow> step uid (run uid (rendering evs)) (Submit uuid now) = run uid (rendering evs)
        \<and> sendMessage env (ui (run uid (rendering evs))) db
            = (ui (run uid (rendering evs)), db, []))"
proof -
  let ?\<sigma> = "run uid (rendering evs)"
  have rejected: "loading (shown \<tau>) \<longrightarrow> step uid \<tau> (Submit uuid now) = \<tau>" for \<tau>
    by (simp add: sendMessage_begin_rejects)
  have atomic: "loading s \<longrightarrow> sendMessage env s db = (s, db, [])
      \<and> length (messages (fst (sendMessage env s db))) = length (messages s)"
    by (simp add: sendMessage_rejects)
  have inv: "shown ?\<sigma> = ui ?\<sigma> \<and> loading (ui ?\<sigma>) = (in_flight ?\<sigma> \<noteq> [])
      \<and> length (in_flight ?\<sigma>) \<le> 1"
    by (rule run_rendering_invariant)
  have "in_flight ?\<sigma> \<noteq> []
      \<longrightarrow> step uid ?\<sigma> (Submit uuid now) = ?\<sigma>
        \<and> sendMessage env (ui ?\<sigma>) db = (ui ?\<sigma>, db, [])"
  proof
    assume "in_flight ?\<sigma> \<noteq> []"
    with inv have "loading (ui ?\<sigma>)" and "loading (shown ?\<sigma>)" by simp_all
    then show "step uid ?\<sigma> (Submit uuid now) = ?\<sigma>
        \<and> sendMessage env (ui ?\<sigma>) db = (ui ?\<sigma>, db, [])"
      using rejected [of ?\<sigma>] by (simp add: sendMessage_rejects)
  qed
  with rejected [of \<sigma>] atomic inv show ?thesis by blast
qed

theorem submit_rejected_once_loading_is_rendered_witness:
  "in_flight (run ''u-1''
       (rendering [Typing ''  hello '', Submit ''tmp-1'' ''2025-12-26T16:04:21.000Z'']))
     = [sample_temp]
   \<and> step ''u-1''
       (run ''u-1'' (rendering [Typing ''  hello '', Submit ''tmp-1'' ''2025-12-26T16:04:21.000Z'']))
       (Submit ''tmp-2'' ''2025-12-26T16:04:21.100Z'')
     = run ''u-1'' (rendering [Typing ''  hello '', Submit ''tmp-1'' ''2025-12-26T16:04:21.000Z''])
   \<and> sendMessage (sample_env sample_upstream_ok)
       (ui (run ''u-1''
          (rendering [Typing ''  hello '', Submit ''tmp-1'' ''2025-12-26T16:04:21.000Z''])))
       [sample_earlier]
     = (ui (run ''u-1''
          (rendering [Typing ''  hello '', Submit ''tmp-1'' ''2025-12-26T16:04:21.000Z''])),
        [sample_earlier], [])"
proof -
  have r: "in_flight (run ''u-1''
        (rendering [Typing ''  hello '', Submit ''tmp-1'' ''2025-12-26T16:04:21.000Z'']))
      = [sample_temp]"
    by (simp add: run_def rendering_def initial_state_def sendMessage_begin_def sample_trim
        Let_def sample_temp_def)
  then have ne: "in_flight (run ''u-1''
        (rendering [Typing ''  hello '', Submit ''tmp-1'' ''2025-12-26T16:04:21.000Z'']))
      \<noteq> []"
    by simp
  from r ne submit_rejected_once_loading_is_rendered
    [of "run ''u-1'' (rendering [Typing ''  hello '', Submit ''tmp-1'' ''2025-12-26T16:04:21.000Z''])"
        "''u-1''" "''tmp-2''" "''2025-12-26T16:04:21.100Z''"
        "ui (run ''u-1'' (rendering [Typing ''  hello '', Submit ''tmp-1'' ''2025-12-26T16:04:21.000Z'']))"
        "sample_env sample_upstream_ok" "[sample_earlier]"
        "[Typing ''  hello '', Submit ''tmp-1'' ''2025-12-26T16:04:21.000Z'']"]
  show ?thesis by blast
qed

text \<open>
  Claim C4. When the relay call fails (the fetch is rejected, the status is not a success
  status such as 502, or the body cannot be read) or the store write fails (a fault of the
  backend, or a generated id that is already taken), the submission
  ends with the provisional entry replaced by a copy whose reply is the fixed error string,
  all other entries being left as they were, and the store is exactly what it was before:
  after a relay failure no insert is even issued, and a failed insert writes nothing.
\<close>

theorem failed_submission_is_ephemeral:
  assumes "trim (inputMessage s) \<noteq> []" and "\<not> loading s"
    and "sendMessage env s db = (s', db', calls)"
    and "(\<exists>e. assistantResponse (env_relay env (relay_request (trim (inputMessage s)) (env_uid env)))
              = Throws e)
         \<or> store_fault (env_store env) \<noteq> None
         \<or> gen_random_uuid (env_store env) \<in> set (map id' db)"
  shows "db' = db
       \<and> (\<exists>s1 t. sendMessage_start (env_uid env) (env_uuid env) (env_now env) s = Some (s1, t)
            \<and> messages s1 = messages s @ [t]
            \<and> messages s' =
                filter (\<lambda>m. id' m \<noteq> id' t) (messages s) @ [t\<lparr>response := JString error_text\<rparr>]
            \<and> (env_uuid env \<notin> set (map id' (messages s))
               \<longrightarrow> messages s' = messages s @ [t\<lparr>response := JString error_text\<rparr>]))
       \<and> ((\<exists>e. assistantResponse (env_relay env (relay_request (trim (inputMessage s)) (env_uid env)))
              = Throws e)
          \<longrightarrow> calls = [RelayCall (relay_request (trim (inputMessage s)) (env_uid env))])"
proof -
  let ?t = "\<lparr>id' = env_uuid env, user_id = env_uid env, message = trim (inputMessage s),
             response = JNull, created_at = env_now env, metadata = JObject []\<rparr>"
  let ?s1 = "s\<lparr>inputMessage := [], loading := True, messages := messages s @ [?t]\<rparr>"
  let ?body = "relay_request (trim (inputMessage s)) (env_uid env)"
  have start: "sendMessage_start (env_uid env) (env_uuid env) (env_now env) s = Some (?s1, ?t)"
    using assms(1,2) by (rule sendMessage_start_accepts)
  obtain r where await:
    "sendMessage_await (env_relay env) (env_store env) (env_uid env) ?t db = (r, db', calls)"
    and s': "s' = sendMessage_finish r ?t ?s1"
    using assms(3) start by (auto simp: sendMessage_def split: prod.splits)
  from assms(4) await obtain e where r: "r = Throws e"
    by (auto simp: sendMessage_await_def store_insert_def Let_def
        split: outcome.splits option.splits if_splits)
  from await r have db: "db' = db"
    using await_failure_keeps_store by blast
  have list: "messages s' =
      filter (\<lambda>m. id' m \<noteq> id' ?t) (messages s) @ [?t\<lparr>response := JString error_text\<rparr>]"
    by (simp add: s' r sendMessage_finish_def update_failed_def)
  have fresh: "env_uuid env \<notin> set (map id' (messages s))
      \<longrightarrow> messages s' = messages s @ [?t\<lparr>response := JString error_text\<rparr>]"
    using list filter_fresh [of "env_uuid env" "messages s"] by simp
  have calls: "(\<exists>e. assistantResponse (env_relay env ?body) = Throws e)
      \<longrightarrow> calls = [RelayCall ?body]"
    using await by (auto simp: sendMessage_await_def Let_def)
  have "\<exists>s1 t. sendMessage_start (env_uid env) (env_uuid env) (env_now env) s = Some (s1, t)
      \<and> messages s1 = messages s @ [t]
      \<and> messages s' =
          filter (\<lambda>m. id' m \<noteq> id' t) (messages s) @ [t\<lparr>response := JString error_text\<rparr>]
      \<and> (env_uuid env \<notin> set (map id' (messages s))
         \<longrightarrow> messages s' = messages s @ [t\<lparr>response := JString error_text\<rparr>])"
    using start list fresh by (intro exI [of _ ?s1] exI [of _ ?t]) simp
  with db calls show ?thesis by blast
qed

theorem failed_submission_is_ephemeral_witness:
  "env_relay (sample_env sample_upstream_down) (relay_request ''hello'' ''u-1'') =
     Returns \<lparr>reply_status = 502,
              reply_json = Returns (JObject [(''success'', JBool False),
                 (''response'', JString ''Failed to process your message. Please try again.'')])\<rparr>
   \<and> sendMessage (sample_env sample_upstream_down) sample_state [sample_earlier] =
       (\<lparr>messages = [sample_earlier, sample_temp\<lparr>response := JString error_text\<rparr>],
         inputMessage = [], loading = False, loadingHistory = False\<rparr>,
        [sample_earlier],
        [RelayCall (relay_request ''hello'' ''u-1'')])"
proof -
  have a: "trim (inputMessage sample_state) \<noteq> []"
    by (simp add: sample_state_def sample_trim)
  have b: "\<not> loading sample_state"
    by (simp add: sample_state_def)
  have "assistantResponse
          (env_relay (sample_env sample_upstream_down)
             (relay_request (trim (inputMessage sample_state)) (env_uid (sample_env sample_upstream_down))))
        = Throws ''Failed to send message''"
    using sample_relay_down
    by (simp add: sample_state_def sample_trim sample_env_def assistantResponse_def response_ok_def)
  then have c: "(\<exists>e. assistantResponse
          (env_relay (sample_env sample_upstream_down)
             (relay_request (trim (inputMessage sample_state)) (env_uid (sample_env sample_upstream_down))))
        = Throws e)
      \<or> store_fault (env_store (sample_env sample_upstream_down)) \<noteq> None
      \<or> gen_random_uuid (env_store (sample_env sample_upstream_down)) \<in> set (map id' [sample_earlier])"
    by blast
  from failed_submission_is_ephemeral [OF a b sample_run_down c]
  show ?thesis by (simp add: sample_run_down sample_relay_down)
qed

text \<open>
  Claim C8. When a submission goes through the success path (the relay gave the reply \<open>a\<close>
  and the insert was accepted), the store has gained one row for the owner that carries the
  trimmed prompt and the reply \<open>a\<close>; it is the entry the list ends with, and a later
  \<open>loadChatHistory\<close> for that owner whose read succeeds, on the store as it then is or with
  further rows appended, yields a list that contains this row.
\<close>

theorem saved_exchange_round_trips:
  assumes "trim (inputMessage s) \<noteq> []" and "\<not> loading s"
    and "sendMessage env s db = (s', db', calls)"
    and "assistantResponse (env_relay env (relay_request (trim (inputMessage s)) (env_uid env)))
           = Returns a"
    and "store_fault (env_store env) = None"
    and "gen_random_uuid (env_store env) \<notin> set (map id' db)"
  shows "\<exists>saved. db' = db @ [saved]
       \<and> last (messages s') = saved
       \<and> user_id saved = env_uid env
       \<and> message saved = trim (inputMessage s)
       \<and> response saved = a
       \<and> saved \<in> set (messages (loadChatHistory (store_query ts None (env_uid env) (db' @ later)) s2))"
proof -
  let ?t = "\<lparr>id' = env_uuid env, user_id = env_uid env, message = trim (inputMessage s),
             response = JNull, created_at = env_now env, metadata = JObject []\<rparr>"
  let ?s1 = "s\<lparr>inputMessage := [], loading := True, messages := messages s @ [?t]\<rparr>"
  let ?saved = "\<lparr>id' = gen_random_uuid (env_store env), user_id = env_uid env,
                 message = trim (inputMessage s), response = a,
                 created_at = store_now (env_store env), metadata = JObject []\<rparr>"
  have start: "sendMessage_start (env_uid env) (env_uuid env) (env_now env) s = Some (?s1, ?t)"
    using assms(1,2) by (rule sendMessage_start_accepts)
  have await: "sendMessage_await (env_relay env) (env_store env) (env_uid env) ?t db =
      (Returns ?saved, db @ [?saved],
       [RelayCall (relay_request (trim (inputMessage s)) (env_uid env)),
        StoreInsert \<lparr>ins_user_id = env_uid env, ins_message = trim (inputMessage s),
                     ins_response = a\<rparr>])"
    using assms(4,5,6) by (simp add: sendMessage_await_def store_insert_def Let_def)
  from assms(3) start await have db': "db' = db @ [?saved]"
    and s': "s' = sendMessage_finish (Returns ?saved) ?t ?s1"
    by (simp_all add: sendMessage_def)
  have shown: "last (messages s') = ?saved"
    by (simp add: s' sendMessage_finish_def update_saved_def)
  have "?saved \<in> set (store_select ts (env_uid env) (db' @ later))"
    by (simp add: store_select_def db')
  then have "?saved \<in> set (messages (loadChatHistory (store_query ts None (env_uid env) (db' @ later)) s2))"
    by (simp add: loadChatHistory_def store_query_def)
  with db' shown show ?thesis
    by (intro exI [of _ ?saved]) simp
qed

theorem saved_exchange_round_trips_witness:
  "sample_saved \<in> set (messages (loadChatHistory
       (store_query (\<lambda>t. int (length t)) None ''u-1'' [sample_earlier, sample_saved]) initial_state))
   \<and> message sample_saved = ''hello'' \<and> response sample_saved = JString ''hi there''"
proof -
  have a: "trim (inputMessage sample_state) \<noteq> []"
    by (simp add: sample_state_def sample_trim)
  have b: "\<not> loading sample_state"
    by (simp add: sample_state_def)
  have c: "assistantResponse
          (env_relay (sample_env sample_upstream_ok)
             (relay_request (trim (inputMessage sample_state)) (env_uid (sample_env sample_upstream_ok))))
        = Returns (JString ''hi there'')"
    by (simp add: sample_state_def sample_trim sample_env_def assistantResponse_def response_ok_def
        edge_function_def serve_def forward_def relay_request_def sample_upstream_ok_def
        truthy_opt_def token_missing_def Let_def success_response_def json_response_def or_else_def)
  have d: "store_fault (env_store (sample_env sample_upstream_ok)) = None"
    by (simp add: sample_env_def sample_store_env_def)
  have e: "gen_random_uuid (env_store (sample_env sample_upstream_ok)) \<notin> set (map id' [sample_earlier])"
    by (simp add: sample_env_def sample_store_env_def sample_earlier_def)
  from saved_exchange_round_trips [OF a b sample_run_ok c d e, of "\<lambda>t. int (length t)" "[]" initial_state]
  show ?thesis
    by (auto simp: sample_env_def sample_saved_def)
qed

text \<open>
  Claim C9. On the failure path the entry that replaces the provisional one is a copy of it
  in which only the reply differs: id (the temporary id), owner, prompt, creation timestamp
  and metadata are those of the provisional entry, and the reply is the error string.
\<close>

theorem error_placeholder_keeps_provisional_fields:
  "\<exists>p. messages (sendMessage_finish (Throws e) t s) =
          filter (\<lambda>m. id' m \<noteq> id' t) (messages s) @ [p]
       \<and> p = t\<lparr>response := JString error_text\<rparr>
       \<and> id' p = id' t \<and> user_id p = user_id t \<and> message p = message t
       \<and> created_at p = created_at t \<and> metadata p = metadata t
       \<and> response p = JString ''Sorry, there was an error processing your message. Please try again.''"
  by (simp add: sendMessage_finish_def update_failed_def error_text_def)

theorem error_placeholder_keeps_provisional_fields_witness:
  "messages (sendMessage_finish (Throws ''Failed to send message'') sample_temp
      \<lparr>messages = [sample_earlier, sample_temp], inputMessage = [],
       loading = True, loadingHistory = False\<rparr>)
   = [sample_earlier,
      \<lparr>id' = ''tmp-1'', user_id = ''u-1'', message = ''hello'',
       response = JString ''Sorry, there was an error processing your message. Please try again.'',
       created_at = ''2025-12-26T16:04:21.000Z'', metadata = JObject []\<rparr>]"
  using error_placeholder_keeps_provisional_fields
    [of "''Failed to send message''" sample_temp
        "\<lparr>messages = [sample_earlier, sample_temp], inputMessage = [],
          loading = True, loadingHistory = False\<rparr>"]
  by (auto simp: sample_temp_def sample_earlier_def)

end
